theory Spec2Isabelle
  imports Main "HOL-Library.AList"
begin

section \<open>Data model\<close>

text \<open>
  The rules engine lives in two React components: the provider of
  \<^verbatim>\<open>context/GameContext.jsx\<close> (players, ownership, mortgages, houses, bankrupt
  players) and the game page (\<^verbatim>\<open>GamePage\<close>: turn flags, dice, the pending buy
  decision, the pending trade, the chance cursor). Both are embedded as one record that
  every command takes and returns. Presentation state (display positions, money
  animation, the narrative log, which modal is open) is left out; it never feeds back
  into the fields kept here, with one exception noted at \<open>rollDice\<close>.

  A handler reads the state through the variables captured at the last render and
  writes through queued updates. Commands therefore read from the state they are given
  and build the new one from it; helpers that are called in the middle of a handler take
  both the captured state (\<open>env\<close>) and the state with the updates queued so far.
\<close>

datatype error = TypeError | RangeError

datatype ptype = Human | AI

record player =
  ptype :: ptype
  money :: int
  position :: int
  inJail :: bool
  jailTurnsLeft :: int
  jailFreeCard :: bool

text \<open>
  The board table (\<^verbatim>\<open>data/boardData\<close>) is not among the sources; every function
  that consults it takes the board as a parameter. The fields of a cell are the ones the
  sources read: \<^verbatim>\<open>id\<close>, \<^verbatim>\<open>type\<close>, \<^verbatim>\<open>color\<close>, \<^verbatim>\<open>price\<close>,
  \<^verbatim>\<open>rent\<close> (an array), \<^verbatim>\<open>rentMultiplier.one/.two\<close>, \<^verbatim>\<open>houseCost\<close>,
  \<^verbatim>\<open>mortgage\<close> and \<^verbatim>\<open>amount\<close>.
\<close>

datatype celltype = Property | Railroad | Utility | Tax | Chance | GotoJail | Special

record cell =
  cid :: nat
  ctype :: celltype
  color :: "string option"
  price :: int
  rent :: "int list"
  rentMultiplier :: "int \<times> int"
  houseCost :: int
  mortgage :: int
  amount :: int

datatype effect =
    MoneyE int
  | MoveE int
  | GotoE int
  | JailE
  | JailFreeE
  | CollectFromAll int
  | PayAll int
  | PayPerHouse int

record offer =
  giveProperties :: "nat list"
  giveMoney :: int
  takeProperties :: "nat list"
  takeMoney :: int

record trade =
  trade_from :: nat
  trade_to :: nat
  trade_offer :: offer

text \<open>
  The three dictionaries are JavaScript objects keyed by cell id. They are association
  lists here, read with \<^const>\<open>map_of\<close> and written with \<^const>\<open>AList.update\<close>,
  because two handlers iterate over their entries.
\<close>

record game =
  players :: "player list"
  currentPlayer :: nat
  ownership :: "(nat \<times> nat) list"
  mortgaged :: "(nat \<times> bool) list"
  houses :: "(nat \<times> nat) list"
  bankruptPlayers :: "nat list"
  dice :: "int \<times> int"
  rolling :: bool
  hasRolled :: bool
  activeCell :: "cell option"
  tradeWith :: "nat option"
  tradeOffer :: offer
  pendingTrade :: "trade option"
  chanceIndex :: nat
  chanceCard :: "effect option"
  isAITurn :: bool

definition emptyOffer :: offer where
  "emptyOffer = \<lparr>giveProperties = [], giveMoney = 0, takeProperties = [], takeMoney = 0\<rparr>"

text \<open>\<^verbatim>\<open>startGame\<close> of the start page creates every player like this.\<close>

definition startPlayer :: "ptype \<Rightarrow> int \<Rightarrow> player" where
  "startPlayer ty m =
     \<lparr>ptype = ty, money = m, position = 0, inJail = False, jailTurnsLeft = 0,
      jailFreeCard = False\<rparr>"

text \<open>The initial values of the \<^verbatim>\<open>useState\<close> hooks, for a given roster.\<close>

definition initialGame :: "player list \<Rightarrow> game" where
  "initialGame ps =
     \<lparr>players = ps, currentPlayer = 0, ownership = [], mortgaged = [], houses = [],
      bankruptPlayers = [], dice = (1, 1), rolling = False, hasRolled = False,
      activeCell = None, tradeWith = None, tradeOffer = emptyOffer, pendingTrade = None,
      chanceIndex = 0, chanceCard = None, isAITurn = False\<rparr>"

section \<open>The context provider\<close>

text \<open>\<^verbatim>\<open>prev.map((p, idx) => ...)\<close>: a map that also sees the index.\<close>

definition mapIdx :: "('a \<Rightarrow> nat \<Rightarrow> 'a) \<Rightarrow> 'a list \<Rightarrow> 'a list" where
  "mapIdx f xs = map (\<lambda>(p, idx). f p idx) (zip xs [0..<length xs])"

text \<open>\<^verbatim>\<open>updateMoney(playerId, amount)\<close>, as the function queued on the roster.\<close>

definition updateMoney :: "nat \<Rightarrow> int \<Rightarrow> player list \<Rightarrow> player list" where
  "updateMoney playerId amt ps =
     mapIdx (\<lambda>p idx. if idx = playerId then p\<lparr>money := money p + amt\<rparr> else p) ps"

text \<open>\<^verbatim>\<open>houses[cellId] || 0\<close> and the truthiness of \<^verbatim>\<open>mortgaged[cellId]\<close>.\<close>

definition houseCount :: "(nat \<times> nat) list \<Rightarrow> nat \<Rightarrow> nat" where
  "houseCount hs cellId = (case map_of hs cellId of None \<Rightarrow> 0 | Some n \<Rightarrow> n)"

definition isMortgaged :: "(nat \<times> bool) list \<Rightarrow> nat \<Rightarrow> bool" where
  "isMortgaged ms cellId = (map_of ms cellId = Some True)"

text \<open>
  \<^verbatim>\<open>buildHouse(cellId, playerId, cost)\<close>. The cash it tests is
  \<^verbatim>\<open>players[playerId]?.money ?? 0\<close>.
\<close>

definition buildHouse :: "nat \<Rightarrow> nat \<Rightarrow> int \<Rightarrow> game \<Rightarrow> game" where
  "buildHouse cellId playerId cost st =
     (let current = houseCount (houses st) cellId in
      if current \<ge> 5 then st
      else
        let playerMoney =
              (if playerId < length (players st) then money (players st ! playerId) else 0)
        in if playerMoney < cost then st
           else st\<lparr>players := updateMoney playerId (- cost) (players st),
                   houses := AList.update cellId (current + 1) (houses st)\<rparr>)"

text \<open>\<^verbatim>\<open>sellHouse(cellId, playerId, refund)\<close>.\<close>

definition sellHouse :: "nat \<Rightarrow> nat \<Rightarrow> int \<Rightarrow> game \<Rightarrow> game" where
  "sellHouse cellId playerId refund st =
     (if map_of (ownership st) cellId \<noteq> Some playerId then st
      else
        let cnt = houseCount (houses st) cellId;
            hs = (if cnt \<le> 0 then houses st else AList.update cellId (cnt - 1) (houses st))
        in st\<lparr>houses := hs, players := updateMoney playerId refund (players st)\<rparr>)"

text \<open>
  \<^verbatim>\<open>declareBankruptcy(playerId)\<close>. Each of the three loops copies the entries it
  keeps into a fresh object; the loops over the mortgages and the houses test the
  captured ownership table.
\<close>

definition declareBankruptcy :: "nat \<Rightarrow> game \<Rightarrow> game" where
  "declareBankruptcy playerId st =
     st\<lparr>ownership := filter (\<lambda>(cellId, owner). owner \<noteq> playerId) (ownership st),
        mortgaged :=
          filter (\<lambda>(cellId, v). map_of (ownership st) cellId \<noteq> Some playerId) (mortgaged st),
        houses :=
          filter (\<lambda>(cellId, n). map_of (ownership st) cellId \<noteq> Some playerId) (houses st),
        bankruptPlayers :=
          (if playerId \<in> set (bankruptPlayers st) then bankruptPlayers st
           else bankruptPlayers st @ [playerId])\<rparr>"

text \<open>\<^verbatim>\<open>mortgageProperty(cellId, playerId, value)\<close>.\<close>

definition mortgageProperty :: "nat \<Rightarrow> nat \<Rightarrow> int \<Rightarrow> game \<Rightarrow> game" where
  "mortgageProperty cellId playerId v st =
     (if houseCount (houses st) cellId > 0 then st
      else st\<lparr>mortgaged := AList.update cellId True (mortgaged st),
              players := updateMoney playerId v (players st)\<rparr>)"

text \<open>
  \<^verbatim>\<open>unmortgageProperty(cellId, playerId, cost)\<close>. The asset modal passes
  \<^verbatim>\<open>Math.floor(cell.mortgage * 1.1)\<close> as the cost; for the non-negative whole
  mortgage values of a board that is \<open>unmortgageCost\<close>, computed on integers.
\<close>

definition unmortgageProperty :: "nat \<Rightarrow> nat \<Rightarrow> int \<Rightarrow> game \<Rightarrow> game" where
  "unmortgageProperty cellId playerId cost st =
     st\<lparr>players :=
          mapIdx (\<lambda>p idx. if idx = playerId \<and> money p \<ge> cost
                           then p\<lparr>money := money p - cost\<rparr> else p) (players st),
        mortgaged := AList.update cellId False (mortgaged st)\<rparr>"

definition unmortgageCost :: "cell \<Rightarrow> int" where
  "unmortgageCost c = (mortgage c * 11) div 10"

text \<open>\<^verbatim>\<open>sendToJail\<close>, \<^verbatim>\<open>releaseFromJail\<close> and \<^verbatim>\<open>decrementJailTurn\<close>.\<close>

definition sendToJail :: "nat \<Rightarrow> player list \<Rightarrow> player list" where
  "sendToJail playerId ps =
     mapIdx (\<lambda>p idx. if idx = playerId
                      then p\<lparr>position := 10, inJail := True, jailTurnsLeft := 3\<rparr> else p) ps"

definition releaseFromJail :: "nat \<Rightarrow> player list \<Rightarrow> player list" where
  "releaseFromJail playerId ps =
     mapIdx (\<lambda>p idx. if idx = playerId
                      then p\<lparr>inJail := False, jailTurnsLeft := 0\<rparr> else p) ps"

definition decrementJailTurn :: "nat \<Rightarrow> player list \<Rightarrow> player list" where
  "decrementJailTurn playerId ps =
     mapIdx (\<lambda>p idx. if idx = playerId
                      then p\<lparr>jailTurnsLeft := jailTurnsLeft p - 1\<rparr> else p) ps"

section \<open>The game page: buying and trading\<close>

text \<open>
  \<^verbatim>\<open>buyProperty()\<close>. The log line reads \<^verbatim>\<open>players[currentPlayer].name\<close>
  before anything is queued, which throws when the index is outside the roster.
\<close>

definition buyProperty :: "game \<Rightarrow> error + game" where
  "buyProperty st =
     (case activeCell st of
        None \<Rightarrow> Inr st
      | Some c \<Rightarrow>
          if \<not> currentPlayer st < length (players st) then Inl TypeError
          else Inr (st\<lparr>ownership := AList.update (cid c) (currentPlayer st) (ownership st),
                       players := updateMoney (currentPlayer st) (- price c) (players st),
                       activeCell := None\<rparr>))"

definition skipProperty :: "game \<Rightarrow> game" where
  "skipProperty st = st\<lparr>activeCell := None\<rparr>"

text \<open>
  \<^verbatim>\<open>applyTrade(trade)\<close>, called by the Accept button of the review modal with the
  pending trade. The two \<^verbatim>\<open>forEach\<close> loops run in this order on one copy of the
  table.
\<close>

definition applyTrade :: "trade \<Rightarrow> game \<Rightarrow> game" where
  "applyTrade tr st =
     (let f = trade_from tr; t = trade_to tr; off = trade_offer tr;
          own1 = fold (\<lambda>cellId updated. AList.update cellId t updated)
                      (giveProperties off) (ownership st);
          own2 = fold (\<lambda>cellId updated. AList.update cellId f updated)
                      (takeProperties off) own1;
          ps1 = (if giveMoney off > 0
                 then updateMoney t (giveMoney off) (updateMoney f (- giveMoney off) (players st))
                 else players st);
          ps2 = (if takeMoney off > 0
                 then updateMoney f (takeMoney off) (updateMoney t (- takeMoney off) ps1)
                 else ps1)
      in st\<lparr>ownership := own2, players := ps2, pendingTrade := None, tradeWith := None,
             tradeOffer := emptyOffer\<rparr>)"

text \<open>The Accept and Reject buttons, shown while a trade is pending.\<close>

definition acceptTrade :: "game \<Rightarrow> game" where
  "acceptTrade st = (case pendingTrade st of None \<Rightarrow> st | Some tr \<Rightarrow> applyTrade tr st)"

definition rejectTrade :: "game \<Rightarrow> game" where
  "rejectTrade st = st\<lparr>pendingTrade := None\<rparr>"

section \<open>The game page: movement, landing and chance cards\<close>

text \<open>
  Array reads: an index outside the array gives \<^verbatim>\<open>undefined\<close>.
\<close>

definition arrayGet :: "'a list \<Rightarrow> int \<Rightarrow> 'a option" where
  "arrayGet xs i = (if 0 \<le> i \<and> nat i < length xs then Some (xs ! nat i) else None)"

text \<open>JavaScript's \<^verbatim>\<open>%\<close> on integers, for a positive divisor: the sign follows the dividend.\<close>

definition jsRem :: "int \<Rightarrow> int \<Rightarrow> int" where
  "jsRem a b = (if a < 0 then - ((- a) mod b) else a mod b)"

text \<open>The deck of \<^verbatim>\<open>data/chanceCards.js\<close>, in file order (the texts are dropped).\<close>

definition chanceCards :: "effect list" where
  "chanceCards =
     [MoveE 3, MoneyE 200, CollectFromAll 20, JailE, MoneyE 100, MoveE (- 2), PayAll 10,
      PayPerHouse 25, MoneyE 150, JailFreeE, GotoE 0, MoneyE (- 150), PayPerHouse 25,
      MoneyE (- 50), MoneyE (- 100)]"

text \<open>
  The body of the timer callback of \<^verbatim>\<open>rollDice\<close>: one board cell per tick, until
  \<^verbatim>\<open>stepCount >= steps\<close>. It returns the final cell and whether cell 0 was entered.
\<close>

function tick :: "int \<Rightarrow> int \<Rightarrow> int \<Rightarrow> bool \<Rightarrow> int \<times> bool" where
  "tick steps stepCount currentPos passedStart =
     (let currentPos' = jsRem (currentPos + 1) 40;
          passedStart' = (passedStart \<or> currentPos' = 0);
          stepCount' = stepCount + 1
      in if stepCount' \<ge> steps then (currentPos', passedStart')
         else tick steps stepCount' currentPos' passedStart')"
  by pat_completeness auto
termination
  by (relation "measure (\<lambda>(steps, stepCount, currentPos, passedStart). nat (steps - stepCount))")
     auto

declare tick.simps [simp del]

text \<open>
  The filter over \<^verbatim>\<open>Object.entries(ownership)\<close> that counts the unmortgaged
  railroads (or utilities) of an owner.
\<close>

definition ownedOfType :: "cell list \<Rightarrow> game \<Rightarrow> nat \<Rightarrow> celltype \<Rightarrow> nat" where
  "ownedOfType board env ownr ty =
     length (filter (\<lambda>(cellId, playerId).
                playerId = ownr
                \<and> (case arrayGet board (int cellId) of None \<Rightarrow> False | Some c \<Rightarrow> ctype c = ty)
                \<and> \<not> isMortgaged (mortgaged env) cellId) (ownership env))"

text \<open>
  \<^verbatim>\<open>handleCellAction(cell, options)\<close>, \<^verbatim>\<open>applyChance(card, basePosition)\<close> and
  \<^verbatim>\<open>movePlayerTo(targetPosition, options)\<close> call one another. The first argument
  bounds the depth of calls to \<open>applyChance\<close>; running out of it is the engine's
  call-stack overflow. \<open>env\<close> is the state captured by the handler, \<open>st\<close> the state
  with the updates queued so far. A log line that reads the name of a player outside the
  roster throws.
\<close>

fun handleCellAction ::
    "nat \<Rightarrow> cell list \<Rightarrow> game \<Rightarrow> game \<Rightarrow> cell option \<Rightarrow> bool \<Rightarrow> int option \<Rightarrow> error + game"
  and applyChance ::
    "nat \<Rightarrow> cell list \<Rightarrow> game \<Rightarrow> game \<Rightarrow> effect option \<Rightarrow> int option \<Rightarrow> error + game"
  and movePlayerTo ::
    "nat \<Rightarrow> cell list \<Rightarrow> game \<Rightarrow> game \<Rightarrow> int \<Rightarrow> bool \<Rightarrow> error + game"
where
  "handleCellAction fuel board env st None silent pos = Inr st"
| "handleCellAction fuel board env st (Some cell) silent pos =
     (let owner = map_of (ownership env) (cid cell); cur = currentPlayer env in
      if ctype cell = GotoJail then
        (if cur < length (players env)
         then Inr (st\<lparr>players := sendToJail cur (players st)\<rparr>) else Inl TypeError)
      else if ctype cell = Property \<or> ctype cell = Railroad \<or> ctype cell = Utility then
        (case owner of
           None \<Rightarrow> Inr (if silent then st else st\<lparr>activeCell := Some cell\<rparr>)
         | Some ownr \<Rightarrow>
             if isMortgaged (mortgaged env) (cid cell) then Inr st
             else if ownr \<noteq> cur then
               (let rnt =
                      (if ctype cell = Property then
                         arrayGet (rent cell)
                           (min (int (houseCount (houses env) (cid cell)))
                                (int (length (rent cell)) - 1))
                       else if ctype cell = Railroad then
                         (let ownedRails = ownedOfType board env ownr Railroad in
                          if ownedRails > 0 then arrayGet (rent cell) (int ownedRails - 1)
                          else Some 0)
                       else
                         (let ownedUtilities = ownedOfType board env ownr Utility;
                              diceTotal = fst (dice env) + snd (dice env);
                              multiplier = (if ownedUtilities = 2 then snd (rentMultiplier cell)
                                            else fst (rentMultiplier cell))
                          in Some (diceTotal * multiplier)))
                in case rnt of
                     None \<Rightarrow> Inr st
                   | Some r \<Rightarrow>
                       if r > 0 then
                         (if cur < length (players env) \<and> ownr < length (players env)
                          then Inr (st\<lparr>players :=
                                         updateMoney ownr r (updateMoney cur (- r) (players st))\<rparr>)
                          else Inl TypeError)
                       else Inr st)
             else Inr st)
      else if ctype cell = Chance then
        (let drawn = arrayGet chanceCards (int (chanceIndex env));
             st1 = st\<lparr>chanceIndex := (chanceIndex st + 1) mod length chanceCards\<rparr>
         in if silent then applyChance fuel board env st1 drawn pos
            else Inr (st1\<lparr>chanceCard := drawn\<rparr>))
      else if ctype cell = Tax then
        (if cur < length (players env)
         then Inr (st\<lparr>players := updateMoney cur (- amount cell) (players st)\<rparr>)
         else Inl TypeError)
      else Inr st)"
| "applyChance 0 board env st drawn basePosition = Inl RangeError"
| "applyChance (Suc fuel) board env st drawn basePosition =
     (let cur = currentPlayer env in
      if \<not> cur < length (players env) then Inl TypeError
      else
        case drawn of
          None \<Rightarrow> Inl TypeError
        | Some (MoneyE a) \<Rightarrow>
            Inr (st\<lparr>players := updateMoney cur a (players st), chanceCard := None\<rparr>)
        | Some (MoveE steps) \<Rightarrow>
            (let currentPos = (case basePosition of Some b \<Rightarrow> b
                               | None \<Rightarrow> position (players env ! cur));
                 newPos = jsRem (currentPos + steps + 40) 40
             in case movePlayerTo fuel board env st newPos True of
                  Inl e \<Rightarrow> Inl e
                | Inr st' \<Rightarrow> Inr (st'\<lparr>chanceCard := None\<rparr>))
        | Some (GotoE p) \<Rightarrow>
            (case movePlayerTo fuel board env st p False of
               Inl e \<Rightarrow> Inl e
             | Inr st' \<Rightarrow> Inr (st'\<lparr>chanceCard := None\<rparr>))
        | Some JailE \<Rightarrow>
            Inr (st\<lparr>players := sendToJail cur (players st), chanceCard := None,
                    hasRolled := True\<rparr>)
        | Some JailFreeE \<Rightarrow>
            Inr (st\<lparr>players :=
                      mapIdx (\<lambda>p idx. if idx = cur then p\<lparr>jailFreeCard := True\<rparr> else p)
                        (players st),
                    chanceCard := None\<rparr>)
        | Some (CollectFromAll a) \<Rightarrow>
            Inr (st\<lparr>players :=
                      fold (\<lambda>idx ps. if idx \<noteq> cur \<and> idx \<notin> set (bankruptPlayers env)
                                      then updateMoney cur a (updateMoney idx (- a) ps) else ps)
                        [0..<length (players env)] (players st),
                    chanceCard := None\<rparr>)
        | Some (PayAll a) \<Rightarrow>
            Inr (st\<lparr>players :=
                      fold (\<lambda>idx ps. if idx \<noteq> cur \<and> idx \<notin> set (bankruptPlayers env)
                                      then updateMoney cur (- a) (updateMoney idx a ps) else ps)
                        [0..<length (players env)] (players st),
                    chanceCard := None\<rparr>)
        | Some (PayPerHouse a) \<Rightarrow>
            (let totalHouses =
                   sum_list (map (\<lambda>(cellId, n).
                                    if map_of (ownership env) cellId = Some cur then int n else 0)
                                 (houses env));
                 total = totalHouses * a
             in Inr (st\<lparr>players := (if total > 0 then updateMoney cur (- total) (players st)
                                      else players st),
                        chanceCard := None\<rparr>)))"
| "movePlayerTo fuel board env st targetPosition awardStart =
     (let cur = currentPlayer env in
      if \<not> cur < length (players env) then Inl TypeError
      else
        let currentPos = position (players env ! cur);
            passedStart = (awardStart \<and> targetPosition < currentPos);
            st1 = st\<lparr>players :=
                       mapIdx (\<lambda>p idx. if idx = cur
                                        then p\<lparr>position := targetPosition,
                                               money := money p + (if passedStart then 200 else 0)\<rparr>
                                        else p) (players st)\<rparr>
        in handleCellAction fuel board env st1 (arrayGet board targetPosition)
             (ptype (players env ! cur) = AI) None)"

text \<open>
  \<^verbatim>\<open>rollDice()\<close>, with the two random dice as arguments. The walk starts from
  \<^verbatim>\<open>displayPositions[currentPlayer]\<close>, which an effect keeps equal to the player's
  position whenever the roster changes; the model reads the position. The final tick
  replaces the roster by the captured one with the active player moved, logs the name of
  the landing cell (which throws when the index is outside the board), resolves the
  landing, and sets the flags.
\<close>

definition rollDice :: "nat \<Rightarrow> cell list \<Rightarrow> int \<Rightarrow> int \<Rightarrow> game \<Rightarrow> error + game" where
  "rollDice fuel board d1 d2 st =
     (let cur = currentPlayer st; known = (cur < length (players st)) in
      if isAITurn st then Inr st
      else if known \<and> ptype (players st ! cur) = AI then Inr st
      else if known \<and> inJail (players st ! cur) then Inr st
      else if rolling st \<or> hasRolled st \<or> players st = [] then Inr st
      else if \<not> known then Inl TypeError
      else
        let steps = d1 + d2;
            (currentPos, passedStart) = tick steps 0 (position (players st ! cur)) False;
            updatedPlayers =
              mapIdx (\<lambda>p i. if i \<noteq> cur then p
                             else p\<lparr>position := currentPos,
                                    money := money p + (if passedStart then 200 else 0)\<rparr>)
                (players st);
            st1 = st\<lparr>dice := (d1, d2), players := updatedPlayers\<rparr>
        in case arrayGet board currentPos of
             None \<Rightarrow> Inl TypeError
           | Some landedCell \<Rightarrow>
               (case handleCellAction fuel board st st1 (Some landedCell) False None of
                  Inl e \<Rightarrow> Inl e
                | Inr st2 \<Rightarrow> Inr (st2\<lparr>rolling := False, hasRolled := True\<rparr>)))"


section \<open>The game page: ending a turn\<close>

text \<open>
  The \<^verbatim>\<open>do ... while (bankruptPlayers.includes(next))\<close> loop of \<^verbatim>\<open>endTurn\<close>.
  Nothing bounds it: with every player bankrupt it never ends, which is the value
  \<open>None\<close>.
\<close>

partial_function (option) nextPlayer :: "nat \<Rightarrow> nat list \<Rightarrow> nat \<Rightarrow> nat option" where
  "nextPlayer n bankrupt next =
     (if (next + 1) mod n \<in> set bankrupt then nextPlayer n bankrupt ((next + 1) mod n)
      else Some ((next + 1) mod n))"

declare nextPlayer.simps [code]

text \<open>
  \<^verbatim>\<open>endTurn()\<close>. The log line throws for an active index outside the roster, so the
  loop only runs on a roster that is not empty.
\<close>

definition endTurn :: "game \<Rightarrow> (error + game) option" where
  "endTurn st =
     (if \<not> hasRolled st then Some (Inr st)
      else if \<not> currentPlayer st < length (players st) then Some (Inl TypeError)
      else
        case nextPlayer (length (players st)) (bankruptPlayers st) (currentPlayer st) of
          None \<Rightarrow> None
        | Some next \<Rightarrow> Some (Inr (st\<lparr>hasRolled := False, currentPlayer := next\<rparr>)))"

section \<open>The game page: houses\<close>

text \<open>The cells of a colour: \<^verbatim>\<open>boardCells.filter(c => c.color === cell.color && c.type === "property")\<close>.\<close>

definition sameColorCells :: "cell list \<Rightarrow> cell \<Rightarrow> cell list" where
  "sameColorCells board cell =
     filter (\<lambda>c. color c = color cell \<and> ctype c = Property) board"

text \<open>\<^verbatim>\<open>ownsFullColorSet(cell)\<close>; a missing or empty colour is falsy.\<close>

definition ownsFullColorSet :: "cell list \<Rightarrow> game \<Rightarrow> cell \<Rightarrow> bool" where
  "ownsFullColorSet board st cell =
     (if color cell = None \<or> color cell = Some [] then False
      else list_all (\<lambda>c. map_of (ownership st) (cid c) = Some (currentPlayer st))
             (sameColorCells board cell))"

text \<open>
  \<^verbatim>\<open>canBuildHere(cell)\<close> and \<^verbatim>\<open>canSellHere(cell)\<close>. \<^verbatim>\<open>Math.min()\<close> of no
  arguments is \<^verbatim>\<open>Infinity\<close> and \<^verbatim>\<open>Math.max()\<close> is \<^verbatim>\<open>-Infinity\<close>, which no
  count equals.
\<close>

definition canBuildHere :: "cell list \<Rightarrow> game \<Rightarrow> cell \<Rightarrow> bool" where
  "canBuildHere board st cell =
     (if \<not> ownsFullColorSet board st cell then False
      else
        let counts = map (\<lambda>c. houseCount (houses st) (cid c)) (sameColorCells board cell)
        in counts \<noteq> [] \<and> houseCount (houses st) (cid cell) = Min (set counts))"

definition canSellHere :: "cell list \<Rightarrow> game \<Rightarrow> cell \<Rightarrow> bool" where
  "canSellHere board st cell =
     (if \<not> ownsFullColorSet board st cell then False
      else
        let counts = map (\<lambda>c. houseCount (houses st) (cid c)) (sameColorCells board cell)
        in counts \<noteq> [] \<and> houseCount (houses st) (cid cell) = Max (set counts)
           \<and> Max (set counts) > 0)"

text \<open>
  The \<^verbatim>\<open>onBuildHouse\<close> and \<^verbatim>\<open>onSellHouse\<close> handlers that the game page gives to
  the asset modal. A cell id outside the board makes \<^verbatim>\<open>cell.color\<close> throw.
\<close>

definition onBuildHouse :: "cell list \<Rightarrow> nat \<Rightarrow> game \<Rightarrow> error + game" where
  "onBuildHouse board cellId st =
     (case arrayGet board (int cellId) of
        None \<Rightarrow> Inl TypeError
      | Some cell \<Rightarrow>
          if \<not> canBuildHere board st cell then Inr st
          else Inr (buildHouse cellId (currentPlayer st) (houseCost cell) st))"

definition onSellHouse :: "cell list \<Rightarrow> nat \<Rightarrow> game \<Rightarrow> error + game" where
  "onSellHouse board cellId st =
     (case arrayGet board (int cellId) of
        None \<Rightarrow> Inl TypeError
      | Some cell \<Rightarrow>
          if \<not> canSellHere board st cell then Inr st
          else Inr (sellHouse cellId (currentPlayer st) (houseCost cell div 2) st))"

text \<open>
  The \<^verbatim>\<open>"build"\<close> case of \<^verbatim>\<open>executeAIAction\<close> in
  \<^verbatim>\<open>services/aiExecutor.js\<close>, which carries out the actions chosen for an automated
  player: it reads the cell for its house cost and calls \<^verbatim>\<open>buildHouse\<close> directly.
\<close>

definition executeAIAction_build :: "cell list \<Rightarrow> nat \<Rightarrow> game \<Rightarrow> error + game" where
  "executeAIAction_build board cellId st =
     (case arrayGet board (int cellId) of
        None \<Rightarrow> Inl TypeError
      | Some cell \<Rightarrow> Inr (buildHouse cellId (currentPlayer st) (houseCost cell) st))"

section \<open>Scenarios\<close>

text \<open>Concrete cells and games on which the theorems below are run.\<close>

definition plainCell :: cell where
  "plainCell =
     \<lparr>cid = 0, ctype = Special, color = None, price = 0, rent = [], rentMultiplier = (0, 0),
      houseCost = 0, mortgage = 0, amount = 0\<rparr>"

definition cheapStreet :: cell where
  "cheapStreet =
     plainCell\<lparr>cid := 1, ctype := Property, color := Some ''brown'', price := 60,
               rent := [2, 10, 30, 90, 160, 250], houseCost := 50, mortgage := 30\<rparr>"

definition staleTrade :: trade where
  "staleTrade =
     \<lparr>trade_from = 0, trade_to = 1,
      trade_offer = \<lparr>giveProperties = [1], giveMoney = 0, takeProperties = [],
                     takeMoney = 2000\<rparr>\<rparr>"

definition staleTradeGame :: game where
  "staleTradeGame =
     (initialGame [startPlayer Human 1500, startPlayer Human 1500, startPlayer Human 1500])
       \<lparr>ownership := [(1, 2)], pendingTrade := Some staleTrade\<rparr>"

definition fairTrade :: trade where
  "fairTrade =
     \<lparr>trade_from = 0, trade_to = 1,
      trade_offer = \<lparr>giveProperties = [1], giveMoney = 100, takeProperties = [3],
                     takeMoney = 0\<rparr>\<rparr>"

definition fairTradeGame :: game where
  "fairTradeGame =
     (initialGame [startPlayer Human 1500, startPlayer Human 1500])
       \<lparr>ownership := [(1, 0), (3, 1)], pendingTrade := Some fairTrade\<rparr>"

definition poorBuyerGame :: game where
  "poorBuyerGame =
     (initialGame [startPlayer Human 50, startPlayer Human 1500])
       \<lparr>hasRolled := True, activeCell := Some cheapStreet\<rparr>"

definition debtorGame :: game where
  "debtorGame =
     (initialGame [startPlayer Human (- 120), startPlayer Human 1500])
       \<lparr>ownership := [(1, 0), (3, 1)], mortgaged := [(1, True)], houses := [(3, 2)]\<rparr>"

definition shortOfCashGame :: game where
  "shortOfCashGame =
     (initialGame [startPlayer Human 10, startPlayer Human 1500])
       \<lparr>ownership := [(1, 0)], mortgaged := [(1, True)]\<rparr>"

definition noHouseGame :: game where
  "noHouseGame =
     (initialGame [startPlayer Human 100, startPlayer Human 1500])\<lparr>ownership := [(1, 0)]\<rparr>"

definition tradePendingGame :: game where
  "tradePendingGame =
     (initialGame [startPlayer Human 1500, startPlayer Human 1500, startPlayer Human 1500])
       \<lparr>ownership := [(1, 0), (3, 1)], bankruptPlayers := [1], hasRolled := True,
        pendingTrade := Some fairTrade\<rparr>"

text \<open>
  The even-build rule in the words of the specification's glossary: no cell of a group
  has a house count more than 1 above the group's minimum. It is stated on a group of
  cells and a count per cell id, to be compared with what \<open>canBuildHere\<close> tests.
\<close>

definition evenBuildRule :: "cell list \<Rightarrow> (nat \<Rightarrow> nat) \<Rightarrow> bool" where
  "evenBuildRule grp cnt =
     list_all (\<lambda>c. list_all (\<lambda>d. cnt (cid c) \<le> cnt (cid d) + 1) grp) grp"

definition pinkStreet :: "nat \<Rightarrow> cell" where
  "pinkStreet i =
     plainCell\<lparr>cid := i, ctype := Property, color := Some ''pink'', price := 140,
               rent := [10, 50, 150, 450, 625, 750], houseCost := 100, mortgage := 70\<rparr>"

definition pinkBoard :: "cell list" where
  "pinkBoard = [plainCell, pinkStreet 1, pinkStreet 2, pinkStreet 3]"

definition pinkGame :: game where
  "pinkGame =
     (initialGame [startPlayer Human 500, startPlayer Human 1500])
       \<lparr>ownership := [(1, 0), (2, 0), (3, 0)], mortgaged := [(3, True)],
        houses := [(1, 1), (2, 1)]\<rparr>"

definition walkBoard :: "cell list" where
  "walkBoard = map (\<lambda>i. plainCell\<lparr>cid := i\<rparr>) [0..<40]"

definition nearStartGame :: game where
  "nearStartGame =
     initialGame [(startPlayer Human 1500)\<lparr>position := 35\<rparr>, startPlayer Human 1500]"

definition rentGame :: game where
  "rentGame =
     (initialGame [startPlayer Human 1500, startPlayer Human 1500])\<lparr>ownership := [(1, 1)]\<rparr>"


definition threeHouseGame :: game where
  "threeHouseGame =
     (initialGame [startPlayer Human 1500, startPlayer Human 1500])
       \<lparr>ownership := [(1, 1)], houses := [(1, 3)]\<rparr>"

definition aiPinkGame :: game where
  "aiPinkGame =
     (initialGame [startPlayer AI 500, startPlayer Human 1500])
       \<lparr>ownership := [(1, 0), (2, 0), (3, 0)], mortgaged := [(3, True)],
        houses := [(1, 1), (2, 1)], isAITurn := True\<rparr>"



section \<open>Basic facts\<close>

lemma length_mapIdx: "length (mapIdx f xs) = length xs"
  by (simp add: mapIdx_def)

lemma nth_mapIdx: "i < length xs \<Longrightarrow> mapIdx f xs ! i = f (xs ! i) i"
  by (simp add: mapIdx_def)

lemma length_updateMoney: "length (updateMoney i a ps) = length ps"
  by (simp add: updateMoney_def length_mapIdx)

lemma nth_updateMoney:
  "j < length ps \<Longrightarrow>
   updateMoney i a ps ! j = (if j = i then (ps ! j)\<lparr>money := money (ps ! j) + a\<rparr> else ps ! j)"
  by (simp add: updateMoney_def nth_mapIdx)

lemma money_updateMoney:
  "j < length ps \<Longrightarrow>
   money (updateMoney i a ps ! j) = (if j = i then money (ps ! j) + a else money (ps ! j))"
  by (simp add: nth_updateMoney)

lemma map_of_fold_update:
  "map_of (fold (\<lambda>c u. AList.update c v u) cs al) x =
     (if x \<in> set cs then Some v else map_of al x)"
  by (induction cs arbitrary: al) (auto simp: AList.update_conv')

lemma map_of_filter_value:
  "map_of (filter (\<lambda>(k, v). v \<noteq> p) xs) c \<noteq> Some p"
  by (induction xs) auto

lemma map_of_filter_key:
  "\<not> P c \<Longrightarrow> map_of (filter (\<lambda>(k, v). P k) xs) c = None"
  by (induction xs) auto

section \<open>Accepting a trade\<close>

text \<open>
  Claim C1, as the specification states it: accepting a pending trade either applies the
  full offer or, when a leg has become invalid (stale ownership, insufficient funds),
  changes nobody's ownership or cash. \<open>applyTrade\<close> has no validity test at all. In
  \<open>staleTradeGame\<close> the offered cell 1 belongs to player 2, who is no party to the
  trade, and the recipient is asked for more cash than they hold; the trade is applied
  all the same, cell 1 goes to the recipient and the recipient's cash goes negative.
\<close>

theorem acceptTrade_stale_counterexample:
  "map_of (ownership staleTradeGame) 1 \<noteq> Some (trade_from staleTrade)
   \<and> money (players staleTradeGame ! trade_to staleTrade) < takeMoney (trade_offer staleTrade)
   \<and> map_of (ownership (acceptTrade staleTradeGame)) 1 = Some (trade_to staleTrade)
   \<and> money (players (acceptTrade staleTradeGame) ! 0) = 3500
   \<and> money (players (acceptTrade staleTradeGame) ! 1) = - 500"
  by (simp add: acceptTrade_def applyTrade_def staleTradeGame_def staleTrade_def initialGame_def
      startPlayer_def money_updateMoney length_updateMoney)

text \<open>
  Claim C1, amended: \<open>applyTrade\<close> applies the offer unconditionally. For two distinct
  players of the roster, every cell of \<^verbatim>\<open>takeProperties\<close> ends with the proposer,
  every cell of \<^verbatim>\<open>giveProperties\<close> that is not also taken ends with the recipient,
  no other cell changes owner, each positive cash amount moves between the two players,
  and the pending trade is cleared.
\<close>

theorem applyTrade_unconditional:
  assumes "trade_from tr \<noteq> trade_to tr"
    and "trade_from tr < length (players st)"
    and "trade_to tr < length (players st)"
  shows "(\<forall>c \<in> set (takeProperties (trade_offer tr)).
            map_of (ownership (applyTrade tr st)) c = Some (trade_from tr))
       \<and> (\<forall>c \<in> set (giveProperties (trade_offer tr)) - set (takeProperties (trade_offer tr)).
            map_of (ownership (applyTrade tr st)) c = Some (trade_to tr))
       \<and> (\<forall>c. c \<notin> set (giveProperties (trade_offer tr)) \<union> set (takeProperties (trade_offer tr))
            \<longrightarrow> map_of (ownership (applyTrade tr st)) c = map_of (ownership st) c)
       \<and> money (players (applyTrade tr st) ! trade_from tr) =
           money (players st ! trade_from tr) - max 0 (giveMoney (trade_offer tr))
             + max 0 (takeMoney (trade_offer tr))
       \<and> money (players (applyTrade tr st) ! trade_to tr) =
           money (players st ! trade_to tr) + max 0 (giveMoney (trade_offer tr))
             - max 0 (takeMoney (trade_offer tr))
       \<and> pendingTrade (applyTrade tr st) = None"
proof -
  have own: "map_of (ownership (applyTrade tr st)) c =
      (if c \<in> set (takeProperties (trade_offer tr)) then Some (trade_from tr)
       else if c \<in> set (giveProperties (trade_offer tr)) then Some (trade_to tr)
       else map_of (ownership st) c)" for c
    by (simp add: applyTrade_def Let_def map_of_fold_update)
  have mf: "money (players (applyTrade tr st) ! trade_from tr) =
           money (players st ! trade_from tr) - max 0 (giveMoney (trade_offer tr))
             + max 0 (takeMoney (trade_offer tr))"
    using assms by (simp add: applyTrade_def Let_def money_updateMoney length_updateMoney)
  have mt: "money (players (applyTrade tr st) ! trade_to tr) =
           money (players st ! trade_to tr) + max 0 (giveMoney (trade_offer tr))
             - max 0 (takeMoney (trade_offer tr))"
    using assms by (simp add: applyTrade_def Let_def money_updateMoney length_updateMoney)
  have pt: "pendingTrade (applyTrade tr st) = None"
    by (simp add: applyTrade_def Let_def)
  have o1: "\<forall>c \<in> set (takeProperties (trade_offer tr)).
            map_of (ownership (applyTrade tr st)) c = Some (trade_from tr)"
    by (simp add: own)
  have o2: "\<forall>c \<in> set (giveProperties (trade_offer tr)) - set (takeProperties (trade_offer tr)).
            map_of (ownership (applyTrade tr st)) c = Some (trade_to tr)"
    by (simp add: own)
  have o3: "\<forall>c. c \<notin> set (giveProperties (trade_offer tr)) \<union> set (takeProperties (trade_offer tr))
            \<longrightarrow> map_of (ownership (applyTrade tr st)) c = map_of (ownership st) c"
    by (simp add: own)
  from o1 o2 o3 mf mt pt show ?thesis by blast
qed

theorem applyTrade_unconditional_witness:
  "trade_from fairTrade \<noteq> trade_to fairTrade
   \<and> map_of (ownership (applyTrade fairTrade fairTradeGame)) 3 = Some 0
   \<and> map_of (ownership (applyTrade fairTrade fairTradeGame)) 1 = Some 1
   \<and> money (players (applyTrade fairTrade fairTradeGame) ! 0) = 1400
   \<and> money (players (applyTrade fairTrade fairTradeGame) ! 1) = 1600"
  using applyTrade_unconditional [of fairTrade fairTradeGame]
  by (simp add: fairTrade_def fairTradeGame_def initialGame_def startPlayer_def)

section \<open>Buying the pending cell\<close>

text \<open>
  Claim C2, as the specification states it: \<open>buyProperty\<close> is rejected, with no change
  of ownership or cash, when the active player's cash is not strictly greater than the
  price. \<open>buyProperty\<close> never compares cash with the price: with 50 in cash and a price
  of 60 the purchase goes through and leaves the buyer at -10.
\<close>

theorem buyProperty_poor_counterexample:
  "money (players poorBuyerGame ! currentPlayer poorBuyerGame) \<le> price cheapStreet
   \<and> activeCell poorBuyerGame = Some cheapStreet
   \<and> buyProperty poorBuyerGame =
       Inr (poorBuyerGame\<lparr>ownership := [(1, 0)],
                          players := [startPlayer Human (- 10), startPlayer Human 1500],
                          activeCell := None\<rparr>)"
  by (simp add: buyProperty_def poorBuyerGame_def cheapStreet_def plainCell_def initialGame_def
      startPlayer_def updateMoney_def mapIdx_def upt_conv_Cons)

text \<open>
  Claim C2, amended: \<open>buyProperty\<close> makes no test of the player's cash. Whenever a buy
  decision is pending it gives the cell to the active player, debits the price and
  consumes the decision, also when the cash is not above the price; with no decision
  pending it changes nothing.
\<close>

theorem buyProperty_unconditional:
  "(activeCell st = None \<longrightarrow> buyProperty st = Inr st)
   \<and> (\<forall>c. activeCell st = Some c \<and> currentPlayer st < length (players st) \<longrightarrow>
          (\<exists>st'. buyProperty st = Inr st'
             \<and> map_of (ownership st') (cid c) = Some (currentPlayer st)
             \<and> money (players st' ! currentPlayer st)
                 = money (players st ! currentPlayer st) - price c
             \<and> activeCell st' = None))"
  by (simp add: buyProperty_def AList.update_conv' money_updateMoney)

theorem buyProperty_unconditional_witness:
  "activeCell poorBuyerGame = Some cheapStreet
   \<and> currentPlayer poorBuyerGame < length (players poorBuyerGame)
   \<and> (\<exists>st'. buyProperty poorBuyerGame = Inr st'
           \<and> map_of (ownership st') 1 = Some 0
           \<and> money (players st' ! 0) = - 10)
   \<and> activeCell noHouseGame = None
   \<and> buyProperty noHouseGame = Inr noHouseGame"
proof -
  have a: "activeCell poorBuyerGame = Some cheapStreet
      \<and> currentPlayer poorBuyerGame < length (players poorBuyerGame)"
    by (simp add: poorBuyerGame_def initialGame_def)
  have v: "cid cheapStreet = 1" "price cheapStreet = 60" "currentPlayer poorBuyerGame = 0"
    "money (players poorBuyerGame ! 0) = 50"
    by (simp_all add: poorBuyerGame_def cheapStreet_def plainCell_def initialGame_def
        startPlayer_def)
  from conjunct2 [OF buyProperty_unconditional [of poorBuyerGame]] a
  have "\<exists>st'. buyProperty poorBuyerGame = Inr st'
          \<and> map_of (ownership st') (cid cheapStreet) = Some (currentPlayer poorBuyerGame)
          \<and> money (players st' ! currentPlayer poorBuyerGame)
              = money (players poorBuyerGame ! currentPlayer poorBuyerGame) - price cheapStreet
          \<and> activeCell st' = None"
    by blast
  then have b: "\<exists>st'. buyProperty poorBuyerGame = Inr st'
           \<and> map_of (ownership st') 1 = Some 0
           \<and> money (players st' ! 0) = - 10"
    unfolding v by auto
  have n: "activeCell noHouseGame = None" by (simp add: noHouseGame_def initialGame_def)
  from conjunct1 [OF buyProperty_unconditional [of noHouseGame]] n
  have "buyProperty noHouseGame = Inr noHouseGame" by blast
  with a b n show ?thesis by blast
qed

section \<open>Bankruptcy\<close>

text \<open>
  Claim C3, as the specification states it: after \<open>declareBankruptcy p\<close> the player's
  cash is 0. \<open>declareBankruptcy\<close> does not touch the roster: a player who goes bankrupt
  at -120 stays at -120.
\<close>

theorem declareBankruptcy_cash_counterexample:
  "money (players (declareBankruptcy 0 debtorGame) ! 0) = - 120
   \<and> 0 \<in> set (bankruptPlayers (declareBankruptcy 0 debtorGame))"
  by (simp add: declareBankruptcy_def debtorGame_def initialGame_def startPlayer_def)

text \<open>
  Claim C3, amended: after \<open>declareBankruptcy p\<close> no cell is owned by \<open>p\<close>, no cell
  that \<open>p\<close> owned has an entry in the mortgage table or in the houses table, \<open>p\<close> is in
  the list of bankrupt players, and the roster, with \<open>p\<close>'s cash, is unchanged.
\<close>

theorem declareBankruptcy_returns_assets:
  "(\<forall>c. map_of (ownership (declareBankruptcy p st)) c \<noteq> Some p)
   \<and> (\<forall>c. map_of (ownership st) c = Some p \<longrightarrow>
          map_of (mortgaged (declareBankruptcy p st)) c = None
          \<and> map_of (houses (declareBankruptcy p st)) c = None)
   \<and> p \<in> set (bankruptPlayers (declareBankruptcy p st))
   \<and> players (declareBankruptcy p st) = players st"
proof -
  have a: "\<forall>c. map_of (ownership (declareBankruptcy p st)) c \<noteq> Some p"
    by (simp add: declareBankruptcy_def map_of_filter_value)
  have b: "\<forall>c. map_of (ownership st) c = Some p \<longrightarrow>
          map_of (mortgaged (declareBankruptcy p st)) c = None
          \<and> map_of (houses (declareBankruptcy p st)) c = None"
    by (simp add: declareBankruptcy_def map_of_filter_key)
  have c: "p \<in> set (bankruptPlayers (declareBankruptcy p st))"
    by (simp add: declareBankruptcy_def)
  have d: "players (declareBankruptcy p st) = players st"
    by (simp add: declareBankruptcy_def)
  from a b c d show ?thesis by blast
qed

theorem declareBankruptcy_returns_assets_witness:
  "map_of (ownership debtorGame) 1 = Some 0
   \<and> map_of (mortgaged debtorGame) 1 = Some True
   \<and> map_of (ownership (declareBankruptcy 0 debtorGame)) 1 \<noteq> Some 0
   \<and> map_of (mortgaged (declareBankruptcy 0 debtorGame)) 1 = None
   \<and> map_of (houses (declareBankruptcy 0 debtorGame)) 1 = None"
  using declareBankruptcy_returns_assets [of 0 debtorGame]
  by (simp add: debtorGame_def initialGame_def)

section \<open>Lifting a mortgage\<close>

text \<open>
  Claim C4: \<open>unmortgageProperty\<close> should leave the cash and the mortgage flag alone
  when the player cannot pay \<open>floor (mortgage * 1.1)\<close>. The debit is guarded by that
  test, the flag is not: with 10 in cash and a cost of 33 the cash stays at 10 and the
  cell is no longer mortgaged.
\<close>

theorem unmortgage_short_of_cash:
  "unmortgageCost cheapStreet = 33
   \<and> money (players shortOfCashGame ! 0) < unmortgageCost cheapStreet
   \<and> isMortgaged (mortgaged shortOfCashGame) 1
   \<and> money (players (unmortgageProperty 1 0 (unmortgageCost cheapStreet) shortOfCashGame) ! 0)
       = 10
   \<and> \<not> isMortgaged
         (mortgaged (unmortgageProperty 1 0 (unmortgageCost cheapStreet) shortOfCashGame)) 1"
  by (simp add: unmortgageProperty_def unmortgageCost_def shortOfCashGame_def cheapStreet_def
      plainCell_def initialGame_def startPlayer_def isMortgaged_def nth_mapIdx)

section \<open>Selling a house that is not there\<close>

text \<open>
  Claim C10: when the player owns the cell and its house count is 0, \<open>sellHouse\<close>
  leaves the houses table as it is and still credits the refund.
\<close>

theorem sellHouse_refund_without_house:
  assumes "map_of (ownership st) cellId = Some playerId"
    and "houseCount (houses st) cellId = 0"
    and "playerId < length (players st)"
  shows "houses (sellHouse cellId playerId refund st) = houses st
       \<and> money (players (sellHouse cellId playerId refund st) ! playerId)
           = money (players st ! playerId) + refund"
  using assms by (simp add: sellHouse_def money_updateMoney)

theorem sellHouse_refund_without_house_witness:
  "map_of (ownership noHouseGame) 1 = Some 0
   \<and> houseCount (houses noHouseGame) 1 = 0
   \<and> houses (sellHouse 1 0 (houseCost cheapStreet div 2) noHouseGame) = []
   \<and> money (players (sellHouse 1 0 (houseCost cheapStreet div 2) noHouseGame) ! 0) = 125"
  using sellHouse_refund_without_house [of noHouseGame 1 0 "houseCost cheapStreet div 2"]
  by (simp add: noHouseGame_def initialGame_def startPlayer_def houseCount_def cheapStreet_def
      plainCell_def)

section \<open>Ending a turn\<close>

lemma nextPlayer_finds:
  "0 < k \<Longrightarrow> (\<forall>j. 0 < j \<and> j < k \<longrightarrow> (cur + j) mod n \<in> set b) \<Longrightarrow>
   (cur + k) mod n \<notin> set b \<Longrightarrow> nextPlayer n b cur = Some ((cur + k) mod n)"
proof (induction k arbitrary: cur)
  case 0
  then show ?case by simp
next
  case (Suc k)
  show ?case
  proof (cases "k = 0")
    case True
    with Suc.prems show ?thesis
      by (subst nextPlayer.simps) simp
  next
    case False
    then have k: "0 < k" by simp
    have first: "(cur + 1) mod n \<in> set b"
      using spec [OF Suc.prems(2), of 1] k by simp
    have shift: "((cur + 1) mod n + j) mod n = (cur + Suc j) mod n" for j
      by (simp add: mod_add_left_eq)
    have mid: "\<forall>j. 0 < j \<and> j < k \<longrightarrow> ((cur + 1) mod n + j) mod n \<in> set b"
    proof (intro allI impI)
      fix j assume "0 < j \<and> j < k"
      then have "(cur + Suc j) mod n \<in> set b"
        using spec [OF Suc.prems(2), of "Suc j"] by simp
      then show "((cur + 1) mod n + j) mod n \<in> set b"
        unfolding shift .
    qed
    have last: "((cur + 1) mod n + k) mod n \<notin> set b"
      unfolding shift using Suc.prems(3) .
    have "nextPlayer n b cur = nextPlayer n b ((cur + 1) mod n)"
      using first by (subst nextPlayer.simps) simp
    also have "\<dots> = Some (((cur + 1) mod n + k) mod n)"
      using Suc.IH [OF k mid last] .
    finally show ?thesis unfolding shift .
  qed
qed

lemma first_solvent_exists:
  fixes cur n i :: nat
  assumes "cur < n" and "i < n" and "i \<notin> set b"
  shows "\<exists>k. 0 < k \<and> k \<le> n \<and> (\<forall>j. 0 < j \<and> j < k \<longrightarrow> (cur + j) mod n \<in> set b)
            \<and> (cur + k) mod n \<notin> set b"
proof -
  define k0 where "k0 = (if cur < i then i - cur else i + n - cur)"
  have k0: "0 < k0" "k0 \<le> n" using assms by (auto simp: k0_def)
  have "(cur + k0) mod n = i"
    using assms by (auto simp: k0_def)
  then have P0: "0 < k0 \<and> (cur + k0) mod n \<notin> set b" using k0 assms by simp
  define k where "k = (LEAST k. 0 < k \<and> (cur + k) mod n \<notin> set b)"
  have Pk: "0 < k \<and> (cur + k) mod n \<notin> set b"
    unfolding k_def by (rule LeastI [of _ k0]) (rule P0)
  have le: "k \<le> k0" unfolding k_def by (rule Least_le) (rule P0)
  have least: "\<forall>j. 0 < j \<and> j < k \<longrightarrow> (cur + j) mod n \<in> set b"
  proof (intro allI impI)
    fix j assume j: "0 < j \<and> j < k"
    show "(cur + j) mod n \<in> set b"
    proof (rule ccontr)
      assume "(cur + j) mod n \<notin> set b"
      then have "k \<le> j" unfolding k_def using j by (intro Least_le) simp
      with j show False by simp
    qed
  qed
  from Pk le k0 least show ?thesis by (intro exI [of _ k]) simp
qed

lemma endTurn_tradePending:
  "endTurn tradePendingGame =
     Some (Inr (tradePendingGame\<lparr>hasRolled := False, currentPlayer := 2\<rparr>))"
proof -
  have "nextPlayer (Suc (Suc (Suc 0))) [Suc 0] 0 = Some 2"
    by (subst nextPlayer.simps, simp, subst nextPlayer.simps, simp)
  then show ?thesis
    by (simp add: endTurn_def tradePendingGame_def initialGame_def)
qed

text \<open>
  Claim C8, as the specification states it: a legal \<open>endTurn\<close> also clears any
  unresolved pending trade offer. \<open>endTurn\<close> writes the rolled flag and the active
  index and nothing else: in \<open>tradePendingGame\<close> the turn passes from player 0 over the
  bankrupt player 1 to player 2, and the offer is still pending afterwards.
\<close>

theorem endTurn_keeps_trade_counterexample:
  "hasRolled tradePendingGame
   \<and> pendingTrade tradePendingGame = Some fairTrade
   \<and> endTurn tradePendingGame =
       Some (Inr (tradePendingGame\<lparr>hasRolled := False, currentPlayer := 2\<rparr>))
   \<and> pendingTrade (tradePendingGame\<lparr>hasRolled := False, currentPlayer := 2\<rparr>)
       = Some fairTrade"
  using endTurn_tradePending by (simp add: tradePendingGame_def initialGame_def)

text \<open>
  Claim C8, amended: \<open>endTurn\<close> does nothing unless the rolled flag is set. When it is
  set and some player of the roster is not bankrupt, the loop returns, the active index
  becomes the first non-bankrupt index after the current one in roster order, wrapping
  around, and the rolled flag is reset; every other field, the pending trade included,
  is left as it was.
\<close>

theorem endTurn_next_solvent:
  assumes "currentPlayer st < length (players st)"
    and "\<exists>i < length (players st). i \<notin> set (bankruptPlayers st)"
  shows "(\<not> hasRolled st \<longrightarrow> endTurn st = Some (Inr st))
       \<and> (hasRolled st \<longrightarrow>
            (\<exists>k. 0 < k \<and> k \<le> length (players st)
               \<and> (\<forall>j. 0 < j \<and> j < k \<longrightarrow>
                     (currentPlayer st + j) mod length (players st) \<in> set (bankruptPlayers st))
               \<and> (currentPlayer st + k) mod length (players st) \<notin> set (bankruptPlayers st)
               \<and> endTurn st =
                   Some (Inr (st\<lparr>hasRolled := False,
                                 currentPlayer :=
                                   (currentPlayer st + k) mod length (players st)\<rparr>))))"
proof (intro conjI impI)
  assume "\<not> hasRolled st"
  then show "endTurn st = Some (Inr st)" by (simp add: endTurn_def)
next
  assume rolled: "hasRolled st"
  from assms obtain i where i: "i < length (players st)" "i \<notin> set (bankruptPlayers st)"
    by blast
  from first_solvent_exists [OF assms(1) i]
  obtain k where k: "0 < k" "k \<le> length (players st)"
      "\<forall>j. 0 < j \<and> j < k \<longrightarrow>
          (currentPlayer st + j) mod length (players st) \<in> set (bankruptPlayers st)"
      "(currentPlayer st + k) mod length (players st) \<notin> set (bankruptPlayers st)"
    by blast
  have "nextPlayer (length (players st)) (bankruptPlayers st) (currentPlayer st)
          = Some ((currentPlayer st + k) mod length (players st))"
    by (rule nextPlayer_finds [OF k(1) k(3) k(4)])
  then have "endTurn st =
      Some (Inr (st\<lparr>hasRolled := False,
                    currentPlayer := (currentPlayer st + k) mod length (players st)\<rparr>))"
    using rolled assms(1) by (simp add: endTurn_def)
  with k show "\<exists>k. 0 < k \<and> k \<le> length (players st)
               \<and> (\<forall>j. 0 < j \<and> j < k \<longrightarrow>
                     (currentPlayer st + j) mod length (players st) \<in> set (bankruptPlayers st))
               \<and> (currentPlayer st + k) mod length (players st) \<notin> set (bankruptPlayers st)
               \<and> endTurn st =
                   Some (Inr (st\<lparr>hasRolled := False,
                                 currentPlayer :=
                                   (currentPlayer st + k) mod length (players st)\<rparr>))"
    by blast
qed

theorem endTurn_next_solvent_witness:
  "currentPlayer tradePendingGame < length (players tradePendingGame)
   \<and> hasRolled tradePendingGame
   \<and> bankruptPlayers tradePendingGame = [1]
   \<and> endTurn tradePendingGame =
       Some (Inr (tradePendingGame\<lparr>hasRolled := False, currentPlayer := 2\<rparr>))"
proof -
  have a: "currentPlayer tradePendingGame < length (players tradePendingGame)"
    by (simp add: tradePendingGame_def initialGame_def)
  have b: "\<exists>i < length (players tradePendingGame). i \<notin> set (bankruptPlayers tradePendingGame)"
    by (rule exI [of _ 0]) (simp add: tradePendingGame_def initialGame_def)
  have r: "hasRolled tradePendingGame" "bankruptPlayers tradePendingGame = [1]"
    "length (players tradePendingGame) = 3" "currentPlayer tradePendingGame = 0"
    by (simp_all add: tradePendingGame_def initialGame_def)
  from endTurn_next_solvent [OF a b] r
  obtain k where k: "0 < k" "k \<le> 3" "\<forall>j. 0 < j \<and> j < k \<longrightarrow> j mod 3 = 1"
     "k mod 3 \<noteq> 1"
     "endTurn tradePendingGame =
        Some (Inr (tradePendingGame\<lparr>hasRolled := False, currentPlayer := k mod 3\<rparr>))"
    by auto
  have "k = 1 \<or> k = 2 \<or> k = 3" using k(1,2) by arith
  then have "k = 2" using k(3,4) by (auto dest: spec [of _ 2])
  with k(5) a r show ?thesis by simp
qed

section \<open>Building a house\<close>

lemma arrayGet_mem: "arrayGet xs i = Some x \<Longrightarrow> x \<in> set xs"
  by (auto simp: arrayGet_def split: if_splits)

lemma canBuildHere_iff:
  assumes "cell \<in> set board" and "ctype cell = Property" and "color cell = Some col"
    and "col \<noteq> []"
  shows "canBuildHere board st cell \<longleftrightarrow>
           (\<forall>c \<in> set (sameColorCells board cell).
               map_of (ownership st) (cid c) = Some (currentPlayer st))
         \<and> (\<forall>c \<in> set (sameColorCells board cell).
               houseCount (houses st) (cid cell) \<le> houseCount (houses st) (cid c))"
proof -
  let ?grp = "sameColorCells board cell"
  let ?A = "(\<lambda>c. houseCount (houses st) (cid c)) ` set ?grp"
  have mem: "cell \<in> set ?grp"
    using assms by (simp add: sameColorCells_def)
  then have ne: "?grp \<noteq> []" by auto
  have fin: "finite ?A" "?A \<noteq> {}" using mem by auto
  have "houseCount (houses st) (cid cell) = Min ?A \<longleftrightarrow>
          (\<forall>c \<in> set ?grp. houseCount (houses st) (cid cell) \<le> houseCount (houses st) (cid c))"
    using Min_eq_iff [OF fin, of "houseCount (houses st) (cid cell)"] mem by auto
  then show ?thesis
    using assms ne by (simp add: canBuildHere_def ownsFullColorSet_def list_all_iff Let_def)
qed

lemma evenBuildRule_step:
  assumes "cell \<in> set grp"
    and "evenBuildRule grp cnt"
  shows "(\<forall>c \<in> set grp. cnt (cid cell) \<le> cnt (cid c))
         \<longleftrightarrow> evenBuildRule grp (cnt(cid cell := cnt (cid cell) + 1))"
proof
  assume low: "\<forall>c \<in> set grp. cnt (cid cell) \<le> cnt (cid c)"
  have before: "\<forall>c \<in> set grp. \<forall>d \<in> set grp. cnt (cid c) \<le> cnt (cid d) + 1"
    using assms(2) by (simp add: evenBuildRule_def list_all_iff)
  show "evenBuildRule grp (cnt(cid cell := cnt (cid cell) + 1))"
    unfolding evenBuildRule_def list_all_iff
  proof (intro ballI)
    fix c d assume c: "c \<in> set grp" and d: "d \<in> set grp"
    have "cnt (cid cell) \<le> cnt (cid d)" using low d by blast
    moreover have "cnt (cid c) \<le> cnt (cid d) + 1" using before c d by blast
    ultimately show "(cnt(cid cell := cnt (cid cell) + 1)) (cid c)
          \<le> (cnt(cid cell := cnt (cid cell) + 1)) (cid d) + 1"
      by auto
  qed
next
  assume after: "evenBuildRule grp (cnt(cid cell := cnt (cid cell) + 1))"
  show "\<forall>c \<in> set grp. cnt (cid cell) \<le> cnt (cid c)"
  proof
    fix c assume c: "c \<in> set grp"
    define cnt' where "cnt' = cnt(cid cell := cnt (cid cell) + 1)"
    have "\<forall>c \<in> set grp. \<forall>d \<in> set grp. cnt' (cid c) \<le> cnt' (cid d) + 1"
      using after by (simp add: evenBuildRule_def list_all_iff cnt'_def)
    then have "cnt' (cid cell) \<le> cnt' (cid c) + 1"
      using assms(1) c by blast
    then show "cnt (cid cell) \<le> cnt (cid c)"
      by (cases "cid c = cid cell") (simp_all add: cnt'_def)
  qed
qed

lemma houseCount_update:
  "houseCount (AList.update k v hs) c = (if c = k then v else houseCount hs c)"
  by (simp add: houseCount_def AList.update_conv')

text \<open>
  What the \<open>onBuildHouse\<close> handler of the asset modal checks, for a street of the
  board: the active player owns every cell of the colour group, the cell's house count
  is the least of the group and below 5, and the player's cash is at least the house
  cost. It then debits the house cost and raises the cell's count by one, and otherwise
  changes nothing. On a group that satisfies the even-build rule, the count being the
  least of the group is the same as the rule holding after the increment. The mortgage
  table is not read here: the modal shows the build button only for a cell that is not
  mortgaged.
\<close>

theorem onBuildHouse_legality:
  assumes "arrayGet board (int cellId) = Some cell"
    and "cid cell = cellId"
    and "ctype cell = Property"
    and "color cell = Some col"
    and "col \<noteq> []"
    and "currentPlayer st < length (players st)"
  shows "onBuildHouse board cellId st =
           (if (\<forall>c \<in> set (sameColorCells board cell).
                   map_of (ownership st) (cid c) = Some (currentPlayer st))
               \<and> (\<forall>c \<in> set (sameColorCells board cell).
                   houseCount (houses st) cellId \<le> houseCount (houses st) (cid c))
               \<and> houseCount (houses st) cellId < 5
               \<and> houseCost cell \<le> money (players st ! currentPlayer st)
            then Inr (st\<lparr>players := updateMoney (currentPlayer st) (- houseCost cell) (players st),
                         houses := AList.update cellId (houseCount (houses st) cellId + 1)
                                     (houses st)\<rparr>)
            else Inr st)
       \<and> houseCount (AList.update cellId (houseCount (houses st) cellId + 1) (houses st)) cellId
           = houseCount (houses st) cellId + 1
       \<and> money (updateMoney (currentPlayer st) (- houseCost cell) (players st) ! currentPlayer st)
           = money (players st ! currentPlayer st) - houseCost cell
       \<and> (evenBuildRule (sameColorCells board cell) (houseCount (houses st)) \<longrightarrow>
            ((\<forall>c \<in> set (sameColorCells board cell).
                 houseCount (houses st) cellId \<le> houseCount (houses st) (cid c))
             \<longleftrightarrow> evenBuildRule (sameColorCells board cell)
                   ((houseCount (houses st))(cellId := houseCount (houses st) cellId + 1))))"
proof -
  have inb: "cell \<in> set board" using assms(1) by (rule arrayGet_mem)
  have mem: "cell \<in> set (sameColorCells board cell)"
    using inb assms(3) by (simp add: sameColorCells_def)
  define own where
    "own \<longleftrightarrow> (\<forall>c \<in> set (sameColorCells board cell).
                 map_of (ownership st) (cid c) = Some (currentPlayer st))"
  define low where
    "low \<longleftrightarrow> (\<forall>c \<in> set (sameColorCells board cell).
                 houseCount (houses st) cellId \<le> houseCount (houses st) (cid c))"
  have cb: "canBuildHere board st cell \<longleftrightarrow> own \<and> low"
    using canBuildHere_iff [OF inb assms(3) assms(4) assms(5), of st] assms(2)
    by (simp add: own_def low_def)
  have ob: "onBuildHouse board cellId st =
      (if own \<and> low then Inr (buildHouse cellId (currentPlayer st) (houseCost cell) st)
       else Inr st)"
    using assms(1) by (simp add: onBuildHouse_def cb)
  have bh: "buildHouse cellId (currentPlayer st) (houseCost cell) st =
      (if houseCount (houses st) cellId < 5
          \<and> houseCost cell \<le> money (players st ! currentPlayer st)
       then st\<lparr>players := updateMoney (currentPlayer st) (- houseCost cell) (players st),
               houses := AList.update cellId (houseCount (houses st) cellId + 1) (houses st)\<rparr>
       else st)"
    using assms(6) by (simp add: buildHouse_def Let_def not_less not_le)
  have "onBuildHouse board cellId st =
           (if own \<and> low
               \<and> houseCount (houses st) cellId < 5
               \<and> houseCost cell \<le> money (players st ! currentPlayer st)
            then Inr (st\<lparr>players := updateMoney (currentPlayer st) (- houseCost cell) (players st),
                         houses := AList.update cellId (houseCount (houses st) cellId + 1)
                                     (houses st)\<rparr>)
            else Inr st)"
    unfolding ob bh by simp
  then have one: "onBuildHouse board cellId st =
           (if (\<forall>c \<in> set (sameColorCells board cell).
                   map_of (ownership st) (cid c) = Some (currentPlayer st))
               \<and> (\<forall>c \<in> set (sameColorCells board cell).
                   houseCount (houses st) cellId \<le> houseCount (houses st) (cid c))
               \<and> houseCount (houses st) cellId < 5
               \<and> houseCost cell \<le> money (players st ! currentPlayer st)
            then Inr (st\<lparr>players := updateMoney (currentPlayer st) (- houseCost cell) (players st),
                         houses := AList.update cellId (houseCount (houses st) cellId + 1)
                                     (houses st)\<rparr>)
            else Inr st)"
    unfolding own_def low_def .
  have two: "houseCount (AList.update cellId (houseCount (houses st) cellId + 1) (houses st)) cellId
           = houseCount (houses st) cellId + 1"
    by (simp add: houseCount_update)
  have three: "money (updateMoney (currentPlayer st) (- houseCost cell) (players st) ! currentPlayer st)
           = money (players st ! currentPlayer st) - houseCost cell"
    using assms(6) by (simp add: money_updateMoney)
  have four: "evenBuildRule (sameColorCells board cell) (houseCount (houses st)) \<longrightarrow>
            ((\<forall>c \<in> set (sameColorCells board cell).
                 houseCount (houses st) cellId \<le> houseCount (houses st) (cid c))
             \<longleftrightarrow> evenBuildRule (sameColorCells board cell)
                   ((houseCount (houses st))(cellId := houseCount (houses st) cellId + 1)))"
    using evenBuildRule_step [OF mem, of "houseCount (houses st)"] assms(2) by simp
  from one two three four show ?thesis by (intro conjI)
qed


theorem onBuildHouse_legality_witness:
  "arrayGet pinkBoard 1 = Some (pinkStreet 1)
   \<and> map (houseCount (houses pinkGame)) [1, 2, 3] = [1, 1, 0]
   \<and> onBuildHouse pinkBoard 1 pinkGame = Inr pinkGame"
proof -
  have grp: "sameColorCells pinkBoard (pinkStreet 1) = [pinkStreet 1, pinkStreet 2, pinkStreet 3]"
    by (simp add: sameColorCells_def pinkBoard_def pinkStreet_def plainCell_def)
  have a: "arrayGet pinkBoard (int 1) = Some (pinkStreet 1)"
    by (simp add: arrayGet_def pinkBoard_def)
  have h: "map (houseCount (houses pinkGame)) [1, 2, 3] = [1, 1, 0]"
    by (simp add: houseCount_def pinkGame_def initialGame_def)
  have low: "\<not> (\<forall>c \<in> set (sameColorCells pinkBoard (pinkStreet 1)).
                houseCount (houses pinkGame) 1 \<le> houseCount (houses pinkGame) (cid c))"
    unfolding grp using h by (simp add: pinkStreet_def plainCell_def)
  have hy: "cid (pinkStreet 1) = 1" "ctype (pinkStreet 1) = Property"
    "color (pinkStreet 1) = Some ''pink''" "''pink'' \<noteq> []"
    "currentPlayer pinkGame < length (players pinkGame)"
    by (simp_all add: pinkStreet_def plainCell_def pinkGame_def initialGame_def)
  note th = onBuildHouse_legality [OF a hy(1) hy(2) hy(3) hy(4) hy(5)]
  from conjunct1 [OF th] low have "onBuildHouse pinkBoard 1 pinkGame = Inr pinkGame"
    by (simp only: simp_thms if_False)
  with a h show ?thesis by simp
qed

text \<open>
  Claim C7: a build is legal only if the player owns the whole colour group, the cell
  is unmortgaged, its count is below 5, the even-build rule holds afterwards and the
  cash covers the house cost; an illegal build changes nothing. The path of an
  automated player calls \<open>buildHouse\<close> directly, which tests the count and the cash
  only. In \<open>aiPinkGame\<close> the automated player owns the pink group with counts
  [1, 1, 0] and cell 3 is mortgaged: the build on cell 3 goes through and costs 100.
\<close>

theorem aiBuild_on_mortgaged_cell:
  "map_of (mortgaged aiPinkGame) 3 = Some True
   \<and> ptype (players aiPinkGame ! currentPlayer aiPinkGame) = AI
   \<and> executeAIAction_build pinkBoard 3 aiPinkGame =
       Inr (aiPinkGame\<lparr>players := [startPlayer AI 400, startPlayer Human 1500],
                       houses := [(1, 1), (2, 1), (3, 1)]\<rparr>)"
proof -
  have a: "arrayGet pinkBoard (int 3) = Some (pinkStreet 3)"
    by (simp add: arrayGet_def pinkBoard_def)
  have "executeAIAction_build pinkBoard 3 aiPinkGame = Inr (buildHouse 3 0 100 aiPinkGame)"
    using a by (simp add: executeAIAction_build_def pinkStreet_def plainCell_def aiPinkGame_def
        initialGame_def)
  moreover have "buildHouse 3 0 100 aiPinkGame =
      aiPinkGame\<lparr>players := [startPlayer AI 400, startPlayer Human 1500],
                 houses := [(1, 1), (2, 1), (3, 1)]\<rparr>"
    by (simp add: buildHouse_def aiPinkGame_def initialGame_def houseCount_def startPlayer_def
        updateMoney_def mapIdx_def upt_conv_Cons)
  moreover have "map_of (mortgaged aiPinkGame) 3 = Some True"
    "ptype (players aiPinkGame ! currentPlayer aiPinkGame) = AI"
    by (simp_all add: aiPinkGame_def initialGame_def startPlayer_def)
  ultimately show ?thesis by simp
qed

section \<open>Rolling the dice\<close>

lemma jsRem_nonneg: "0 \<le> a \<Longrightarrow> jsRem a b = a mod b"
  by (simp add: jsRem_def)

lemma succ_mod40:
  fixes c :: int
  shows "0 \<le> c \<Longrightarrow> c < 40 \<Longrightarrow> (c + 1) mod 40 = (if c = 39 then 0 else c + 1)"
  by simp

lemma tick_walk:
  "0 \<le> c \<Longrightarrow> c < 40 \<Longrightarrow> sc < steps \<Longrightarrow> steps - sc \<le> 40 \<Longrightarrow>
   tick steps sc c ps = ((c + (steps - sc)) mod 40, ps \<or> 40 \<le> c + (steps - sc))"
proof (induction steps sc c ps rule: tick.induct)
  case (1 steps sc c ps)
  have c': "jsRem (c + 1) 40 = (c + 1) mod 40"
    using "1.prems" by (simp add: jsRem_nonneg)
  have s40: "(c + 1) mod 40 = (if c = 39 then 0 else c + 1)"
    using "1.prems" by (simp add: succ_mod40)
  show ?case
  proof (cases "steps \<le> sc + 1")
    case True
    then have k: "steps - sc = 1" using "1.prems" by simp
    have "tick steps sc c ps = ((c + 1) mod 40, ps \<or> (c + 1) mod 40 = 0)"
      using True by (subst tick.simps) (simp only: c' Let_def if_True)
    also have "\<dots> = ((c + (steps - sc)) mod 40, ps \<or> 40 \<le> c + (steps - sc))"
      unfolding k using "1.prems" by (auto simp: s40)
    finally show ?thesis .
  next
    case False
    have r0: "0 \<le> (c + 1) mod 40" "(c + 1) mod 40 < 40" by simp_all
    have r1: "sc + 1 < steps" "steps - (sc + 1) \<le> 40" using False "1.prems" by simp_all
    have ih: "tick steps (sc + 1) ((c + 1) mod 40) (ps \<or> (c + 1) mod 40 = 0) =
        (((c + 1) mod 40 + (steps - (sc + 1))) mod 40,
         (ps \<or> (c + 1) mod 40 = 0) \<or> 40 \<le> (c + 1) mod 40 + (steps - (sc + 1)))"
      using "1.IH" [OF refl refl refl, unfolded c', OF False r0 r1] .
    have "((c + 1) mod 40 + (steps - (sc + 1))) mod 40 = ((c + 1) + (steps - (sc + 1))) mod 40"
      by (rule mod_add_left_eq)
    moreover have "(c + 1) + (steps - (sc + 1)) = c + (steps - sc)" by simp
    ultimately have p:
      "((c + 1) mod 40 + (steps - (sc + 1))) mod 40 = (c + (steps - sc)) mod 40"
      by simp
    have b: "((c + 1) mod 40 = 0 \<or> 40 \<le> (c + 1) mod 40 + (steps - (sc + 1)))
             = (40 \<le> c + (steps - sc))"
      unfolding s40 using "1.prems" False by (cases "c = 39") simp_all
    have "tick steps sc c ps =
        tick steps (sc + 1) ((c + 1) mod 40) (ps \<or> (c + 1) mod 40 = 0)"
      using False by (subst tick.simps) (simp only: c' Let_def if_False)
    also note ih
    finally have "tick steps sc c ps =
       ((c + (steps - sc)) mod 40,
        ps \<or> ((c + 1) mod 40 = 0 \<or> 40 \<le> (c + 1) mod 40 + (steps - (sc + 1))))"
      unfolding p by (simp only: disj_assoc)
    then show ?thesis by (simp only: b)
  qed
qed


lemma wrap_iff:
  fixes pos s :: int
  assumes "0 \<le> pos" "pos \<le> 39" "1 \<le> s" "s \<le> 39"
  shows "(40 \<le> pos + s) = ((pos + s) mod 40 < pos)"
proof (cases "40 \<le> pos + s")
  case True
  have "(pos + s - 40) mod 40 = pos + s - 40"
    by (rule mod_pos_pos_trivial) (use True assms in linarith)+
  then have "(pos + s) mod 40 = pos + s - 40"
    by (simp only: minus_mod_self2)
  then show ?thesis using True assms by linarith
next
  case False
  have "(pos + s) mod 40 = pos + s"
    by (rule mod_pos_pos_trivial) (use False assms in linarith)+
  then show ?thesis using False assms by linarith
qed



lemma mapIdx_at_neg:
  "cur < length ps \<Longrightarrow>
   mapIdx (\<lambda>p i. if i \<noteq> cur then p else f p) ps = ps[cur := f (ps ! cur)]"
  by (rule nth_equalityI) (simp_all add: length_mapIdx nth_mapIdx nth_list_update)


lemma special_cell_no_effect:
  "ctype c = Special \<Longrightarrow> handleCellAction fuel board env st (Some c) silent pos = Inr st"
  by simp

text \<open>
  Claim C5: on a board of 40 cells, for a human player who may roll, standing on a cell
  0 to 39, and dice between 1 and 6, \<open>rollDice\<close> resolves the landing on the state in
  which the active player stands on \<open>(position + d1 + d2) mod 40\<close> and has been
  credited 200 once if that cell has a smaller index than the old one, and nothing
  otherwise; then it sets the rolled flag. From cell 35 a roll of 3 + 4 ends on cell 2
  with 200 more.
\<close>

theorem rollDice_moves_and_credits:
  assumes "\<not> isAITurn st"
    and "currentPlayer st < length (players st)"
    and "ptype (players st ! currentPlayer st) = Human"
    and "\<not> inJail (players st ! currentPlayer st)"
    and "\<not> rolling st"
    and "\<not> hasRolled st"
    and "0 \<le> position (players st ! currentPlayer st)"
    and "position (players st ! currentPlayer st) \<le> 39"
    and "1 \<le> d1" and "d1 \<le> 6" and "1 \<le> d2" and "d2 \<le> 6"
    and "length board = 40"
  shows "rollDice fuel board d1 d2 st =
     (case handleCellAction fuel board st
             (st\<lparr>dice := (d1, d2),
                 players := (players st)
                   [currentPlayer st := (players st ! currentPlayer st)
                      \<lparr>position := (position (players st ! currentPlayer st) + d1 + d2) mod 40,
                       money := money (players st ! currentPlayer st)
                         + (if (position (players st ! currentPlayer st) + d1 + d2) mod 40
                               < position (players st ! currentPlayer st)
                            then 200 else 0)\<rparr>]\<rparr>)
             (Some (board ! nat ((position (players st ! currentPlayer st) + d1 + d2) mod 40)))
             False None of
        Inl e \<Rightarrow> Inl e
      | Inr st2 \<Rightarrow> Inr (st2\<lparr>rolling := False, hasRolled := True\<rparr>))"
proof -
  define pos where "pos = position (players st ! currentPlayer st)"
  define newPos where "newPos = (pos + d1 + d2) mod 40"
  have steps: "1 \<le> d1 + d2" "d1 + d2 \<le> 39" using assms by linarith+
  have "tick (d1 + d2) 0 pos False = ((pos + (d1 + d2 - 0)) mod 40, False \<or> 40 \<le> pos + (d1 + d2 - 0))"
    by (rule tick_walk) (use assms steps in \<open>simp_all add: pos_def\<close>)
  moreover have "(40 \<le> pos + (d1 + d2)) = ((pos + (d1 + d2)) mod 40 < pos)"
    by (rule wrap_iff) (use assms steps in \<open>simp_all add: pos_def\<close>)
  ultimately have tk: "tick (d1 + d2) 0 pos False = (newPos, newPos < pos)"
    by (simp add: newPos_def add.assoc)
  have ne: "players st \<noteq> []" using assms(2) by auto
  have rng: "0 \<le> newPos" "newPos < 40" by (simp_all add: newPos_def)
  have cell: "arrayGet board newPos = Some (board ! nat newPos)"
    using rng assms(13) by (simp add: arrayGet_def)
  have "rollDice fuel board d1 d2 st =
     (case handleCellAction fuel board st
             (st\<lparr>dice := (d1, d2),
                 players := (players st)
                   [currentPlayer st := (players st ! currentPlayer st)
                      \<lparr>position := newPos,
                       money := money (players st ! currentPlayer st)
                         + (if newPos < pos then 200 else 0)\<rparr>]\<rparr>)
             (Some (board ! nat newPos)) False None of
        Inl e \<Rightarrow> Inl e
      | Inr st2 \<Rightarrow> Inr (st2\<lparr>rolling := False, hasRolled := True\<rparr>))"
    unfolding rollDice_def Let_def pos_def [symmetric]
    using assms(1-6) ne
    by (simp add: tk cell mapIdx_at_neg pos_def [symmetric] del: handleCellAction.simps)
  then show ?thesis unfolding newPos_def pos_def .
qed

theorem rollDice_moves_and_credits_witness:
  "position (players nearStartGame ! currentPlayer nearStartGame) = 35
   \<and> length walkBoard = 40
   \<and> rollDice 1 walkBoard 3 4 nearStartGame =
       Inr (nearStartGame
              \<lparr>dice := (3, 4),
               players := [(startPlayer Human 1700)\<lparr>position := 2\<rparr>, startPlayer Human 1500],
               rolling := False, hasRolled := True\<rparr>)"
proof -
  have g: "\<not> isAITurn nearStartGame"
    "currentPlayer nearStartGame < length (players nearStartGame)"
    "ptype (players nearStartGame ! currentPlayer nearStartGame) = Human"
    "\<not> inJail (players nearStartGame ! currentPlayer nearStartGame)"
    "\<not> rolling nearStartGame" "\<not> hasRolled nearStartGame"
    "0 \<le> position (players nearStartGame ! currentPlayer nearStartGame)"
    "position (players nearStartGame ! currentPlayer nearStartGame) \<le> 39"
    by (simp_all add: nearStartGame_def initialGame_def startPlayer_def)
  have d: "(1::int) \<le> 3" "(3::int) \<le> 6" "(1::int) \<le> 4" "(4::int) \<le> 6" by simp_all
  have l: "length walkBoard = 40" by (simp add: walkBoard_def)
  have p: "position (players nearStartGame ! currentPlayer nearStartGame) = 35"
    by (simp add: nearStartGame_def initialGame_def startPlayer_def)
  have c: "walkBoard ! 2 = plainCell\<lparr>cid := 2\<rparr>"
    by (simp add: walkBoard_def)
  have s: "ctype (plainCell\<lparr>cid := 2\<rparr>) = Special" by (simp add: plainCell_def)
  note th = rollDice_moves_and_credits [OF g(1) g(2) g(3) g(4) g(5) g(6) g(7) g(8) d(1) d(2) d(3) d(4) l,
      of 1]
  have "rollDice 1 walkBoard 3 4 nearStartGame =
       Inr (nearStartGame
              \<lparr>dice := (3, 4),
               players := [(startPlayer Human 1700)\<lparr>position := 2\<rparr>, startPlayer Human 1500],
               rolling := False, hasRolled := True\<rparr>)"
    unfolding th p
    by (simp add: c special_cell_no_effect [OF s] del: handleCellAction.simps)
       (simp add: nearStartGame_def initialGame_def startPlayer_def)
  with p l show ?thesis by simp
qed

section \<open>Rent on a street\<close>

lemma street_rent_index:
  "length xs = 6 \<Longrightarrow>
   arrayGet xs (min (int h) (int (length xs) - 1)) = Some (xs ! min h 5)"
  by (simp add: arrayGet_def min_def)

text \<open>
  Claim C6: landing on an unmortgaged street that another player owns moves the rent
  \<open>rent ! min h 5\<close> from the landing player to the owner, where \<open>h\<close> is the cell's
  entry in the houses table (0 when it has none), for a rent table of six non-negative
  entries. The outcome is the same for every ownership table that gives the cell to the
  same owner, so it does not depend on who holds the rest of the colour group. With
  three houses and the table [2, 10, 30, 90, 160, 250] the rent is 90; with none it is 2,
  also when the owner holds the whole group.
\<close>

theorem street_rent_by_house_count:
  assumes "ctype cell = Property"
    and "map_of (ownership env) (cid cell) = Some ownr"
    and "ownr \<noteq> currentPlayer env"
    and "map_of (mortgaged env) (cid cell) \<noteq> Some True"
    and "map_of (houses env) (cid cell) = Some h
         \<or> (map_of (houses env) (cid cell) = None \<and> h = 0)"
    and "length (rent cell) = 6"
    and "0 \<le> rent cell ! min h 5"
    and "currentPlayer env < length (players env)"
    and "ownr < length (players env)"
    and "length (players st) = length (players env)"
  shows "(\<exists>st'. handleCellAction fuel board env st (Some cell) silent pos = Inr st'
           \<and> money (players st' ! currentPlayer env)
               = money (players st ! currentPlayer env) - rent cell ! min h 5
           \<and> money (players st' ! ownr)
               = money (players st ! ownr) + rent cell ! min h 5)
       \<and> (\<forall>own'. map_of own' (cid cell) = Some ownr \<longrightarrow>
             handleCellAction fuel board (env\<lparr>ownership := own'\<rparr>) st (Some cell) silent pos
               = handleCellAction fuel board env st (Some cell) silent pos)"
proof -
  define r where "r = rent cell ! min h 5"
  have hc: "houseCount (houses env) (cid cell) = h"
    using assms(5) by (auto simp: houseCount_def)
  have idx: "arrayGet (rent cell)
               (min (int (houseCount (houses env) (cid cell))) (int (length (rent cell)) - 1))
             = Some r"
    unfolding r_def hc using assms(6) by (rule street_rent_index)
  have res: "map_of own' (cid cell) = Some ownr \<Longrightarrow>
      handleCellAction fuel board (env\<lparr>ownership := own'\<rparr>) st (Some cell) silent pos =
      (if r > 0
       then Inr (st\<lparr>players :=
                     updateMoney ownr r (updateMoney (currentPlayer env) (- r) (players st))\<rparr>)
       else Inr st)" for own'
    using assms(1,3,4,8,9) by (simp add: Let_def idx isMortgaged_def)
  have res0: "handleCellAction fuel board env st (Some cell) silent pos =
      (if r > 0
       then Inr (st\<lparr>players :=
                     updateMoney ownr r (updateMoney (currentPlayer env) (- r) (players st))\<rparr>)
       else Inr st)"
    using res [OF assms(2)] by simp
  have frame: "\<forall>own'. map_of own' (cid cell) = Some ownr \<longrightarrow>
             handleCellAction fuel board (env\<lparr>ownership := own'\<rparr>) st (Some cell) silent pos
               = handleCellAction fuel board env st (Some cell) silent pos"
    using res res0 by simp
  have pay: "\<exists>st'. handleCellAction fuel board env st (Some cell) silent pos = Inr st'
           \<and> money (players st' ! currentPlayer env) = money (players st ! currentPlayer env) - r
           \<and> money (players st' ! ownr) = money (players st ! ownr) + r"
  proof (cases "r > 0")
    case True
    then show ?thesis
      using res0 assms(3,8,9,10) by (simp add: money_updateMoney length_updateMoney)
  next
    case False
    then have "r = 0" using assms(7) by (simp add: r_def)
    then show ?thesis using res0 by simp
  qed
  from pay frame show ?thesis unfolding r_def by (intro conjI)
qed

theorem street_rent_by_house_count_witness:
  "map_of (houses threeHouseGame) (cid cheapStreet) = Some 3
   \<and> rent cheapStreet = [2, 10, 30, 90, 160, 250]
   \<and> (\<exists>st'. handleCellAction 0 [plainCell, cheapStreet] threeHouseGame threeHouseGame
                (Some cheapStreet) False None = Inr st'
           \<and> money (players st' ! 0) = 1410
           \<and> money (players st' ! 1) = 1590)
   \<and> map_of (houses rentGame) (cid cheapStreet) = None
   \<and> ownsFullColorSet [plainCell, cheapStreet] (rentGame\<lparr>currentPlayer := 1\<rparr>) cheapStreet
   \<and> (\<exists>st'. handleCellAction 0 [plainCell, cheapStreet] rentGame rentGame (Some cheapStreet)
                False None = Inr st'
           \<and> money (players st' ! 0) = 1498
           \<and> money (players st' ! 1) = 1502)"
proof -
  have c: "ctype cheapStreet = Property" "length (rent cheapStreet) = 6"
    "rent cheapStreet = [2, 10, 30, 90, 160, 250]"
    by (simp_all add: cheapStreet_def plainCell_def)
  have h3: "map_of (ownership threeHouseGame) (cid cheapStreet) = Some 1"
    "1 \<noteq> currentPlayer threeHouseGame"
    "map_of (mortgaged threeHouseGame) (cid cheapStreet) \<noteq> Some True"
    "map_of (houses threeHouseGame) (cid cheapStreet) = Some 3
       \<or> (map_of (houses threeHouseGame) (cid cheapStreet) = None \<and> (3::nat) = 0)"
    "0 \<le> rent cheapStreet ! min 3 5"
    "currentPlayer threeHouseGame < length (players threeHouseGame)"
    "1 < length (players threeHouseGame)"
    "length (players threeHouseGame) = length (players threeHouseGame)"
    by (simp_all add: cheapStreet_def plainCell_def threeHouseGame_def initialGame_def)
  have v3: "rent cheapStreet ! min 3 5 = 90" "currentPlayer threeHouseGame = 0"
    "money (players threeHouseGame ! 0) = 1500" "money (players threeHouseGame ! 1) = 1500"
    "map_of (houses threeHouseGame) (cid cheapStreet) = Some 3"
    by (simp_all add: cheapStreet_def plainCell_def threeHouseGame_def initialGame_def
        startPlayer_def)
  from conjunct1 [OF street_rent_by_house_count
      [OF c(1) h3(1) h3(2) h3(3) h3(4) c(2) h3(5) h3(6) h3(7) h3(8),
       of 0 "[plainCell, cheapStreet]" False None]]
  have three: "\<exists>st'. handleCellAction 0 [plainCell, cheapStreet] threeHouseGame threeHouseGame
                (Some cheapStreet) False None = Inr st'
           \<and> money (players st' ! 0) = 1410
           \<and> money (players st' ! 1) = 1590"
    unfolding v3 by auto
  have h0: "map_of (ownership rentGame) (cid cheapStreet) = Some 1"
    "1 \<noteq> currentPlayer rentGame"
    "map_of (mortgaged rentGame) (cid cheapStreet) \<noteq> Some True"
    "map_of (houses rentGame) (cid cheapStreet) = Some 0
       \<or> (map_of (houses rentGame) (cid cheapStreet) = None \<and> (0::nat) = 0)"
    "0 \<le> rent cheapStreet ! min 0 5"
    "currentPlayer rentGame < length (players rentGame)"
    "1 < length (players rentGame)"
    "length (players rentGame) = length (players rentGame)"
    by (simp_all add: cheapStreet_def plainCell_def rentGame_def initialGame_def)
  have v0: "rent cheapStreet ! min 0 5 = 2" "currentPlayer rentGame = 0"
    "money (players rentGame ! 0) = 1500" "money (players rentGame ! 1) = 1500"
    "map_of (houses rentGame) (cid cheapStreet) = None"
    by (simp_all add: cheapStreet_def plainCell_def rentGame_def initialGame_def startPlayer_def)
  from conjunct1 [OF street_rent_by_house_count
      [OF c(1) h0(1) h0(2) h0(3) h0(4) c(2) h0(5) h0(6) h0(7) h0(8),
       of 0 "[plainCell, cheapStreet]" False None]]
  have zero: "\<exists>st'. handleCellAction 0 [plainCell, cheapStreet] rentGame rentGame
                (Some cheapStreet) False None = Inr st'
           \<and> money (players st' ! 0) = 1498
           \<and> money (players st' ! 1) = 1502"
    unfolding v0 by auto
  have full: "ownsFullColorSet [plainCell, cheapStreet] (rentGame\<lparr>currentPlayer := 1\<rparr>) cheapStreet"
    by (simp add: ownsFullColorSet_def sameColorCells_def cheapStreet_def plainCell_def
        rentGame_def initialGame_def)
  from three zero full v3(5) v0(5) c(3) show ?thesis by blast
qed

section \<open>A chance card that moves the player\<close>





end
